theory Spec2Isabelle
  imports Complex_Main "HOL-Library.AList" "HOL-Library.Word"
begin

section \<open>JavaScript values as the relay receives them\<close>

text \<open>
  Every inbound WebSocket frame goes through \<^verbatim>\<open>JSON.parse\<close>, so the values the handlers
  see are JSON values. A number is carried as the real it denotes (the rounding of a literal
  to a binary64 is outside the model). An object is its list of own properties; a property
  read takes the first entry with that key. \<^verbatim>\<open>undefined\<close> (a property that is absent) is
  \<open>None\<close> of \<open>json option\<close>.
\<close>

datatype json =
    JNull
  | JBool bool
  | JNum real
  | JStr string
  | JArr "json list"
  | JObj "(string \<times> json) list"

type_synonym props = "(string \<times> json) list"

text \<open>The result of a numeric coercion: a finite number, an infinity or NaN.\<close>

datatype number = NaN | Fin real | PosInf | NegInf

text \<open>
  Two conversions belong to the language runtime and not to this program: reading a
  string as a number (\<^verbatim>\<open>StringToNumber\<close>) and printing a number (\<^verbatim>\<open>Number::toString\<close>).
  They are parameters of the model; every theorem holds for each choice of them.
\<close>

record runtime =
  StringToNumber :: "string \<Rightarrow> number"
  NumberToString :: "real \<Rightarrow> string"

text \<open>\<^verbatim>\<open>if (x)\<close>, \<^verbatim>\<open>!x\<close>, \<^verbatim>\<open>x && y\<close>: the truthiness of a value.\<close>

fun truthy :: "json option \<Rightarrow> bool" where
  "truthy None = False"
| "truthy (Some JNull) = False"
| "truthy (Some (JBool b)) = b"
| "truthy (Some (JNum r)) = (r \<noteq> 0)"
| "truthy (Some (JStr s)) = (s \<noteq> [])"
| "truthy (Some (JArr xs)) = True"
| "truthy (Some (JObj kvs)) = True"

text \<open>
  \<^verbatim>\<open>ToString\<close> of a parsed value; \<open>None\<close> is a thrown \<^verbatim>\<open>TypeError\<close>. An array prints its
  elements joined by commas (\<^verbatim>\<open>null\<close> elements print as nothing). A parsed object has the
  inherited \<^verbatim>\<open>valueOf\<close>, which returns the object itself, so the conversion rests on
  \<^verbatim>\<open>toString\<close>: the inherited one unless the object has an own property of that name, and
  such a property is never callable.
\<close>

fun ToString :: "runtime \<Rightarrow> json \<Rightarrow> string option"
  and join :: "runtime \<Rightarrow> json list \<Rightarrow> string option" where
  "ToString rt JNull = Some ''null''"
| "ToString rt (JBool b) = Some (if b then ''true'' else ''false'')"
| "ToString rt (JNum r) = Some (NumberToString rt r)"
| "ToString rt (JStr s) = Some s"
| "ToString rt (JArr xs) = join rt xs"
| "ToString rt (JObj kvs) =
     (if map_of kvs ''toString'' = None then Some ''[object Object]'' else None)"
| "join rt [] = Some []"
| "join rt (x # xs) =
     (case (case x of JNull \<Rightarrow> Some [] | _ \<Rightarrow> ToString rt x) of
        None \<Rightarrow> None
      | Some s \<Rightarrow>
          (case xs of
             [] \<Rightarrow> Some s
           | _ # _ \<Rightarrow> (case join rt xs of None \<Rightarrow> None | Some t \<Rightarrow> Some (s @ '','' @ t))))"

text \<open>\<^verbatim>\<open>ToNumber\<close> after \<^verbatim>\<open>ToPrimitive\<close>; \<open>None\<close> is a thrown \<^verbatim>\<open>TypeError\<close>.\<close>

fun ToNumber :: "runtime \<Rightarrow> json option \<Rightarrow> number option" where
  "ToNumber rt None = Some NaN"
| "ToNumber rt (Some JNull) = Some (Fin 0)"
| "ToNumber rt (Some (JBool b)) = Some (Fin (if b then 1 else 0))"
| "ToNumber rt (Some (JNum r)) = Some (Fin r)"
| "ToNumber rt (Some (JStr s)) = Some (StringToNumber rt s)"
| "ToNumber rt (Some (JArr xs)) = map_option (StringToNumber rt) (ToString rt (JArr xs))"
| "ToNumber rt (Some (JObj kvs)) = map_option (StringToNumber rt) (ToString rt (JObj kvs))"

text \<open>\<^verbatim>\<open>x < y\<close> on numbers: true or not (a comparison with NaN is not true).\<close>

fun lessThan :: "number \<Rightarrow> number \<Rightarrow> bool" where
  "lessThan NaN y = False"
| "lessThan x NaN = False"
| "lessThan (Fin a) (Fin b) = (a < b)"
| "lessThan (Fin a) PosInf = True"
| "lessThan (Fin a) NegInf = False"
| "lessThan PosInf y = False"
| "lessThan NegInf NegInf = False"
| "lessThan NegInf y = True"

text \<open>Unary minus on a number.\<close>

fun negate :: "number \<Rightarrow> number" where
  "negate NaN = NaN"
| "negate (Fin a) = Fin (- a)"
| "negate PosInf = NegInf"
| "negate NegInf = PosInf"

text \<open>
  \<^verbatim>\<open>Array.prototype.slice(start)\<close> with one argument: the start is truncated towards zero
  (NaN counts as 0); a negative start counts from the end and is clamped at the front, a
  positive one is clamped at the end.
\<close>

definition trunc :: "real \<Rightarrow> int" where
  "trunc r = (if 0 \<le> r then \<lfloor>r\<rfloor> else \<lceil>r\<rceil>)"

fun slice :: "number \<Rightarrow> 'a list \<Rightarrow> 'a list" where
  "slice NaN xs = xs"
| "slice PosInf xs = []"
| "slice NegInf xs = xs"
| "slice (Fin r) xs =
     (if trunc r < 0 then drop (nat (max (int (length xs) + trunc r) 0)) xs
      else drop (nat (trunc r)) xs)"

text \<open>A property read \<^verbatim>\<open>o.k\<close> on a parsed value other than \<^verbatim>\<open>null\<close>.\<close>

fun get :: "json \<Rightarrow> string \<Rightarrow> json option" where
  "get (JObj kvs) k = map_of kvs k"
| "get v k = None"

text \<open>
  The keys of array elements and string characters are their indices in decimal.
\<close>

function decimal :: "nat \<Rightarrow> string" where
  "decimal n =
     (if n < 10 then [''0123456789'' ! n]
      else decimal (n div 10) @ [''0123456789'' ! (n mod 10)])"
  by pat_completeness auto
termination
  by (relation "measure id") auto

declare decimal.simps [simp del]

text \<open>The own enumerable properties that an object spread \<^verbatim>\<open>{...v}\<close> copies.\<close>

fun ownProps :: "json \<Rightarrow> props" where
  "ownProps (JObj kvs) = kvs"
| "ownProps (JArr xs) = zip (map decimal [0..<length xs]) xs"
| "ownProps (JStr s) = zip (map decimal [0..<length s]) (map (\<lambda>c. JStr [c]) s)"
| "ownProps v = []"

text \<open>
  \<^verbatim>\<open>{...a, ...b}\<close> and \<^verbatim>\<open>{...a, k: v}\<close>: the properties of \<open>b\<close> are written in their
  order; a key already present keeps its place and takes the new value, a new key goes to
  the end.
\<close>

definition assign :: "props \<Rightarrow> props \<Rightarrow> props" where
  "assign a b = fold (\<lambda>(k, v) acc. AList.update k v acc) b a"


section \<open>Rooms\<close>

type_synonym sock = nat  \<comment> \<open>the identity of a WebSocket object\<close>
type_synonym rid = nat  \<comment> \<open>the identity of a \<^verbatim>\<open>MetricsRoom\<close> object\<close>

text \<open>The two values \<^verbatim>\<open>addClient\<close> writes to \<^verbatim>\<open>ws.role\<close>.\<close>

datatype wsrole = Controller | Client

text \<open>
  \<^verbatim>\<open>metricEntry\<close>: the spread metrics object, and the four keys written after the spread
  (which replace keys of the same name coming from the payload).
\<close>

record metricEntry =
  entry_fields :: props
  entry_clientId :: string
  entry_roomCode :: string
  entry_timestamp :: nat
  entry_receivedAt :: nat

record alert =
  alert_type :: string
  alert_severity :: string
  alert_message :: string

text \<open>The messages the server writes to a socket, by their \<^verbatim>\<open>type\<close> field.\<close>

datatype outmsg =
    RoomInfo string string "json option" nat bool
      \<comment> \<open>\<^verbatim>\<open>room_info\<close>: roomCode, clientId, role, clientCount, controllerConnected\<close>
  | ClientJoined string nat  \<comment> \<open>\<^verbatim>\<open>client_joined\<close>: clientId, clientCount\<close>
  | ClientLeft string nat  \<comment> \<open>\<^verbatim>\<open>client_left\<close>: clientId, clientCount\<close>
  | Metrics string props nat  \<comment> \<open>\<^verbatim>\<open>metrics\<close>: from, payload, timestamp\<close>
  | Alerts "alert list"  \<comment> \<open>\<^verbatim>\<open>alerts\<close>\<close>
  | SettingsUpdated props  \<comment> \<open>\<^verbatim>\<open>settings_updated\<close>\<close>
  | Error string  \<comment> \<open>\<^verbatim>\<open>error\<close>: message\<close>
  | Pong nat  \<comment> \<open>\<^verbatim>\<open>pong\<close>: timestamp\<close>

text \<open>
  What a handler does to the outside, in call order: \<^verbatim>\<open>ws.send\<close>, \<^verbatim>\<open>ws.close\<close> (with
  its code and reason, if given), the two database collections and the HTTP reply.
\<close>

datatype effect =
    Send sock outmsg
  | Close sock "(nat \<times> string) option"
  | InsertMetric metricEntry  \<comment> \<open>\<^verbatim>\<open>metricsCollection.insertOne\<close>\<close>
  | InsertSession string  \<comment> \<open>\<^verbatim>\<open>sessionsCollection.insertOne\<close>\<close>
  | DeleteSession string  \<comment> \<open>\<^verbatim>\<open>sessionsCollection.deleteOne\<close>\<close>
  | Reply nat bool "string option"  \<comment> \<open>HTTP status, \<^verbatim>\<open>success\<close>, \<^verbatim>\<open>roomCode\<close>\<close>

text \<open>How a call ends: it returns, or an exception leaves it.\<close>

datatype completion = Normal | Throw

record MetricsRoom =
  code :: string
  controller :: "sock option"
  clients :: "(string \<times> sock) list"  \<comment> \<open>a \<^verbatim>\<open>Map\<close>, in insertion order\<close>
  metrics :: "metricEntry list"
  createdAt :: nat
  lastActivity :: nat
  settings :: props

definition MAX_CLIENTS_PER_ROOM :: nat where
  "MAX_CLIENTS_PER_ROOM = 50"

definition AUTH_TIMEOUT :: nat where
  "AUTH_TIMEOUT = 30000"

text \<open>\<^verbatim>\<open>constructor(code)\<close>\<close>

definition newRoom :: "string \<Rightarrow> nat \<Rightarrow> MetricsRoom" where
  "newRoom c t =
     \<lparr>code = c, controller = None, clients = [], metrics = [], createdAt = t,
      lastActivity = t,
      settings = [(''maxMetricsHistory'', JNum 1000), (''enableRealTime'', JBool True),
                  (''enableAlerts'', JBool True)]\<rparr>"

text \<open>
  The room's methods read \<^verbatim>\<open>readyState\<close> of the sockets they write to; \<open>opn ws\<close> says
  that \<^verbatim>\<open>ws.readyState === WebSocket.OPEN\<close>.
\<close>

definition sendToClient :: "(sock \<Rightarrow> bool) \<Rightarrow> sock \<Rightarrow> outmsg \<Rightarrow> effect list" where
  "sendToClient opn ws m = (if opn ws then [Send ws m] else [])"

definition sendToController :: "(sock \<Rightarrow> bool) \<Rightarrow> MetricsRoom \<Rightarrow> outmsg \<Rightarrow> effect list" where
  "sendToController opn r m =
     (case controller r of
        None \<Rightarrow> []
      | Some c \<Rightarrow> if opn c then sendToClient opn c m else [])"

text \<open>
  The first rule of \<^verbatim>\<open>checkAlerts\<close>: \<^verbatim>\<open>metrics.entropy < 20\<close> and the alert it pushes;
  \<open>None\<close> when the comparison or the template string throws.
\<close>

definition toTemplate :: "runtime \<Rightarrow> json option \<Rightarrow> string option" where
  "toTemplate rt v = (case v of None \<Rightarrow> Some ''undefined'' | Some j \<Rightarrow> ToString rt j)"

definition lowEntropy :: "runtime \<Rightarrow> string \<Rightarrow> json option \<Rightarrow> alert list option" where
  "lowEntropy rt clientId entropy =
     (case ToNumber rt entropy of
        None \<Rightarrow> None
      | Some n \<Rightarrow>
          if lessThan n (Fin 20) then
            (case toTemplate rt entropy of
               None \<Rightarrow> None
             | Some s \<Rightarrow>
                 Some [\<lparr>alert_type = ''low_entropy'', alert_severity = ''warning'',
                        alert_message = ''Client '' @ take 8 clientId
                          @ '' has very low password entropy: '' @ s\<rparr>])
          else Some [])"

text \<open>The second rule: \<^verbatim>\<open>if (metrics.breached)\<close>.\<close>

definition breached :: "string \<Rightarrow> json option \<Rightarrow> alert list" where
  "breached clientId b =
     (if truthy b then
        [\<lparr>alert_type = ''breached_password'', alert_severity = ''critical'',
          alert_message = ''Client '' @ take 8 clientId
            @ '' attempted to use a breached password!''\<rparr>]
      else [])"

definition checkAlerts ::
  "runtime \<Rightarrow> (sock \<Rightarrow> bool) \<Rightarrow> MetricsRoom \<Rightarrow> string \<Rightarrow> props \<Rightarrow> effect list \<times> completion" where
  "checkAlerts rt opn r clientId m =
     (if \<not> truthy (map_of (settings r) ''enableAlerts'') then ([], Normal)
      else
        (case lowEntropy rt clientId (map_of m ''entropy'') of
           None \<Rightarrow> ([], Throw)
         | Some low \<Rightarrow>
             (let alerts = low @ breached clientId (map_of m ''breached'')
              in (if 0 < length alerts then sendToController opn r (Alerts alerts) else [],
                  Normal))))"

text \<open>
  \<^verbatim>\<open>addMetrics\<close>: push, trim, stamp, store, forward, check. The comparison
  \<^verbatim>\<open>this.metrics.length > this.settings.maxMetricsHistory\<close> coerces the setting to a
  number and may throw; the entry is in the buffer by then. \<^verbatim>\<open>storeMetrics\<close> calls
  \<^verbatim>\<open>insertOne\<close> and catches whatever it throws.
\<close>

definition addMetrics ::
  "runtime \<Rightarrow> (sock \<Rightarrow> bool) \<Rightarrow> nat \<Rightarrow> MetricsRoom \<Rightarrow> string \<Rightarrow> props
     \<Rightarrow> MetricsRoom \<times> effect list \<times> completion" where
  "addMetrics rt opn t r clientId m =
     (let metricEntry = \<lparr>entry_fields = m, entry_clientId = clientId, entry_roomCode = code r,
                          entry_timestamp = t, entry_receivedAt = t\<rparr>;
          r1 = r\<lparr>metrics := metrics r @ [metricEntry]\<rparr>
      in case ToNumber rt (map_of (settings r1) ''maxMetricsHistory'') of
           None \<Rightarrow> (r1, [], Throw)
         | Some cap \<Rightarrow>
             (let r2 = (if lessThan cap (Fin (real (length (metrics r1))))
                        then r1\<lparr>metrics := slice (negate cap) (metrics r1)\<rparr> else r1);
                  r3 = r2\<lparr>lastActivity := t\<rparr>;
                  forward = sendToController opn r3 (Metrics clientId m t)
              in case checkAlerts rt opn r3 clientId m of
                   (alerts, c) \<Rightarrow> (r3, InsertMetric metricEntry # forward @ alerts, c)))"

text \<open>\<^verbatim>\<open>removeClient(clientId, role)\<close>, called with \<^verbatim>\<open>ws.role\<close> (which may be unset).\<close>

definition removeClient ::
  "(sock \<Rightarrow> bool) \<Rightarrow> nat \<Rightarrow> MetricsRoom \<Rightarrow> string \<Rightarrow> wsrole option
     \<Rightarrow> MetricsRoom \<times> effect list" where
  "removeClient opn t r clientId role =
     (let r1 = (if role = Some Controller then r\<lparr>controller := None\<rparr>
                else r\<lparr>clients := AList.delete clientId (clients r)\<rparr>);
          r2 = r1\<lparr>lastActivity := t\<rparr>
      in (r2,
          if role = Some Client then
            (case controller r2 of
               None \<Rightarrow> []
             | Some c \<Rightarrow> sendToClient opn c (ClientLeft clientId (length (clients r2))))
          else []))"


section \<open>Connections and the registry\<close>

text \<open>
  One record for each WebSocket connection: the variables of the \<^verbatim>\<open>connection\<close>
  callback's closure (\<^verbatim>\<open>clientId\<close>, \<^verbatim>\<open>room\<close>, \<^verbatim>\<open>authTimeout\<close>), the fields of the socket
  object that the program reads or writes, and the two request fields it reads.
  \<open>authTimeout\<close> holds the time at which the pending timer is due, \<open>None\<close> once it has
  fired or been cleared.
\<close>

record conn =
  clientId :: string
  room :: "rid option"
  authTimeout :: "nat option"
  readyOpen :: bool  \<comment> \<open>\<^verbatim>\<open>ws.readyState === WebSocket.OPEN\<close>\<close>
  closed :: bool  \<comment> \<open>the \<^verbatim>\<open>close\<close> event has been delivered\<close>
  ws_roomCode :: "string option"
  ws_clientId :: "string option"
  ws_role :: "wsrole option"
  remoteAddress :: string
  userAgent :: "string option"

text \<open>
  The process state: the global \<^verbatim>\<open>rooms\<close> map, the room objects it refers to (a room
  object outlives its registry entry while a closure still holds it), the connections, the
  pending empty-room timers (due time and the room the closure holds) and the clock.
  \<^verbatim>\<open>clientSessions\<close> is written and never read, and is left out, as is the heartbeat
  (a ping every 30 seconds to an open socket, which touches no room).
\<close>

record state =
  rooms :: "string \<rightharpoonup> rid"
  heap :: "rid \<Rightarrow> MetricsRoom"
  nextRoom :: rid
  conns :: "sock \<Rightarrow> conn"
  nextSock :: sock
  roomTimers :: "(nat \<times> rid) list"
  now :: nat

definition init :: state where
  "init =
     \<lparr>rooms = Map.empty, heap = (\<lambda>_. newRoom [] 0), nextRoom = 0,
      conns = (\<lambda>_. \<lparr>clientId = [], room = None, authTimeout = None, readyOpen = False,
                     closed = True, ws_roomCode = None, ws_clientId = None, ws_role = None,
                     remoteAddress = [], userAgent = None\<rparr>),
      nextSock = 0, roomTimers = [], now = 0\<rparr>"

definition isOpen :: "state \<Rightarrow> sock \<Rightarrow> bool" where
  "isOpen st ws = readyOpen (conns st ws)"

text \<open>\<^verbatim>\<open>crypto.randomBytes(n).toString('hex')\<close>, with the digits in the given case.\<close>

definition hexByte :: "string \<Rightarrow> 8 word \<Rightarrow> string" where
  "hexByte digits b = [digits ! (unat b div 16), digits ! (unat b mod 16)]"

definition generateRoomCode :: "8 word \<times> 8 word \<times> 8 word \<Rightarrow> string" where
  "generateRoomCode bytes =
     (case bytes of (b0, b1, b2) \<Rightarrow> concat (map (hexByte ''0123456789ABCDEF'') [b0, b1, b2]))"

definition generateClientId :: "8 word list \<Rightarrow> string" where
  "generateClientId bytes = concat (map (hexByte ''0123456789abcdef'') bytes)"

text \<open>\<^verbatim>\<open>ws.close(...)\<close>: the socket leaves the OPEN state at the call.\<close>

definition wsClose :: "sock \<Rightarrow> (nat \<times> string) option \<Rightarrow> state \<Rightarrow> state" where
  "wsClose ws reason st = st\<lparr>conns := (conns st)(ws := (conns st ws)\<lparr>readyOpen := False\<rparr>)\<rparr>"

text \<open>
  \<^verbatim>\<open>addClient(clientId, ws, role)\<close> of the room \<open>this\<close>; \<open>role\<close> is the value of the
  message's \<^verbatim>\<open>role\<close> field as it came. The log line that ends the method prints the role
  in a template string, which throws for a role that has no string conversion; all the
  method does comes before.
\<close>

definition addClient ::
  "runtime \<Rightarrow> rid \<Rightarrow> string \<Rightarrow> sock \<Rightarrow> json option \<Rightarrow> state
     \<Rightarrow> state \<times> effect list \<times> completion" where
  "addClient rt this cid ws role st =
     (let r = heap st this;
          w = conns st ws;
          r1 = (if role = Some (JStr ''controller'') then r\<lparr>controller := Some ws\<rparr>
                else r\<lparr>clients := AList.update cid ws (clients r)\<rparr>);
          w1 = w\<lparr>ws_roomCode := Some (code r), ws_clientId := Some cid,
                 ws_role := Some (if role = Some (JStr ''controller'') then Controller else Client)\<rparr>;
          r2 = r1\<lparr>lastActivity := now st\<rparr>;
          st1 = st\<lparr>heap := (heap st)(this := r2), conns := (conns st)(ws := w1)\<rparr>;
          info = sendToClient (isOpen st1) ws
                   (RoomInfo (code r2) cid role (length (clients r2)) (controller r2 \<noteq> None));
          joined = (if role = Some (JStr ''client'') then
                      (case controller r2 of
                         None \<Rightarrow> []
                       | Some c \<Rightarrow>
                           sendToClient (isOpen st1) c (ClientJoined cid (length (clients r2))))
                    else [])
      in (st1, info @ joined, case toTemplate rt role of None \<Rightarrow> Throw | Some s \<Rightarrow> Normal))"

text \<open>\<^verbatim>\<open>rooms.has(code)\<close> and \<^verbatim>\<open>rooms.get(code)\<close>: the keys of the map are strings.\<close>

fun roomsGet :: "state \<Rightarrow> json option \<Rightarrow> rid option" where
  "roomsGet st (Some (JStr c)) = rooms st c"
| "roomsGet st v = None"

text \<open>
  The \<^verbatim>\<open>hello\<close> branch of the message handler. An exception out of \<^verbatim>\<open>addClient\<close> lands
  in the handler's \<^verbatim>\<open>catch\<close>.
\<close>

definition hello :: "runtime \<Rightarrow> sock \<Rightarrow> json \<Rightarrow> state \<Rightarrow> state \<times> effect list" where
  "hello rt ws message st0 =
     (let st = st0\<lparr>conns := (conns st0)(ws := (conns st0 ws)\<lparr>authTimeout := None\<rparr>)\<rparr>;
          role = get message ''role'';
          code = get message ''code''
      in if \<not> truthy role \<or> \<not> truthy code then
           (wsClose ws (Some (1000, ''Invalid authentication'')) st,
            [Close ws (Some (1000, ''Invalid authentication''))])
         else
           (case roomsGet st code of
              None \<Rightarrow>
                (wsClose ws (Some (1000, ''Invalid room code'')) st,
                 [Send ws (Error ''Invalid room code''),
                  Close ws (Some (1000, ''Invalid room code''))])
            | Some this \<Rightarrow>
                (let st1 = st\<lparr>conns := (conns st)(ws := (conns st ws)\<lparr>room := Some this\<rparr>)\<rparr>
                 in if role = Some (JStr ''client'')
                       \<and> MAX_CLIENTS_PER_ROOM \<le> length (clients (heap st1 this)) then
                      (wsClose ws (Some (1000, ''Room is full'')) st1,
                       [Send ws (Error ''Room is full''),
                        Close ws (Some (1000, ''Room is full''))])
                    else
                      (case addClient rt this (clientId (conns st1 ws)) ws role st1 of
                         (st2, effects, c) \<Rightarrow>
                           (st2,
                            effects
                            @ (case c of
                                 Normal \<Rightarrow> []
                               | Throw \<Rightarrow> [Send ws (Error ''Invalid message format'')]))))))"

text \<open>
  The \<^verbatim>\<open>metrics\<close> branch, entered when \<^verbatim>\<open>room\<close> is set and \<^verbatim>\<open>ws.role === 'client'\<close>.
  An exception out of \<^verbatim>\<open>addMetrics\<close> lands in the handler's \<^verbatim>\<open>catch\<close>.
\<close>

definition metricsMessage :: "runtime \<Rightarrow> sock \<Rightarrow> rid \<Rightarrow> json \<Rightarrow> state \<Rightarrow> state \<times> effect list" where
  "metricsMessage rt ws this message st =
     (let payload = get message ''payload''
      in case payload of
           None \<Rightarrow> (st, [])
         | Some p \<Rightarrow>
             if truthy payload then
               (let w = conns st ws;
                    m = assign (ownProps p)
                          [(''ip'', JStr (remoteAddress w)),
                           (''userAgent'',
                            JStr (case userAgent w of
                                    None \<Rightarrow> ''unknown''
                                  | Some u \<Rightarrow> if u = [] then ''unknown'' else u))]
                in case addMetrics rt (isOpen st) (now st) (heap st this) (clientId w) m of
                     (r, effects, c) \<Rightarrow>
                       (st\<lparr>heap := (heap st)(this := r)\<rparr>,
                        effects
                        @ (case c of
                             Normal \<Rightarrow> []
                           | Throw \<Rightarrow> [Send ws (Error ''Invalid message format'')])))
             else (st, []))"

text \<open>The \<^verbatim>\<open>room_settings\<close> branch, entered when \<^verbatim>\<open>ws.role === 'controller'\<close>.\<close>

definition roomSettings :: "rid \<Rightarrow> json \<Rightarrow> state \<Rightarrow> state \<times> effect list" where
  "roomSettings this message st =
     (let s = get message ''settings''
      in case s of
           None \<Rightarrow> (st, [])
         | Some v \<Rightarrow>
             if truthy s then
               (let r = (heap st this)\<lparr>settings := assign (settings (heap st this)) (ownProps v)\<rparr>
                in (st\<lparr>heap := (heap st)(this := r)\<rparr>,
                    sendToController (isOpen st) r (SettingsUpdated (settings r))))
             else (st, []))"

text \<open>
  \<^verbatim>\<open>ws.on('message')\<close>. The data is the result of \<^verbatim>\<open>JSON.parse\<close>, \<open>None\<close> when it throws;
  reading \<^verbatim>\<open>type\<close> of \<^verbatim>\<open>null\<close> throws too.
\<close>

definition onMessage :: "runtime \<Rightarrow> sock \<Rightarrow> json option \<Rightarrow> state \<Rightarrow> state \<times> effect list" where
  "onMessage rt ws data st =
     (case data of
        None \<Rightarrow> (st, [Send ws (Error ''Invalid message format'')])
      | Some JNull \<Rightarrow> (st, [Send ws (Error ''Invalid message format'')])
      | Some message \<Rightarrow>
          if get message ''type'' = Some (JStr ''hello'') then hello rt ws message st
          else if get message ''type'' = Some (JStr ''metrics'') \<and> room (conns st ws) \<noteq> None
                  \<and> ws_role (conns st ws) = Some Client then
            (case room (conns st ws) of
               None \<Rightarrow> (st, [])
             | Some this \<Rightarrow> metricsMessage rt ws this message st)
          else if get message ''type'' = Some (JStr ''room_settings'')
                  \<and> room (conns st ws) \<noteq> None \<and> ws_role (conns st ws) = Some Controller then
            (case room (conns st ws) of
               None \<Rightarrow> (st, [])
             | Some this \<Rightarrow> roomSettings this message st)
          else if get message ''type'' = Some (JStr ''ping'') then (st, [Send ws (Pong (now st))])
          else (st, []))"

text \<open>
  \<^verbatim>\<open>ws.on('close')\<close>. The socket is CLOSED when the event is delivered. A room left
  without controller and clients gets a timer of one minute.
\<close>

definition isEmpty :: "MetricsRoom \<Rightarrow> bool" where
  "isEmpty r = (length (clients r) = 0 \<and> controller r = None)"

definition onClose :: "sock \<Rightarrow> state \<Rightarrow> state \<times> effect list" where
  "onClose ws st0 =
     (let st = st0\<lparr>conns := (conns st0)(ws := (conns st0 ws)
                     \<lparr>authTimeout := None, readyOpen := False, closed := True\<rparr>)\<rparr>
      in case room (conns st ws) of
           None \<Rightarrow> (st, [])
         | Some this \<Rightarrow>
             (case removeClient (isOpen st) (now st) (heap st this) (clientId (conns st ws))
                     (ws_role (conns st ws)) of
                (r, effects) \<Rightarrow>
                  (let st1 = st\<lparr>heap := (heap st)(this := r)\<rparr>
                   in (if isEmpty (heap st1 this)
                       then st1\<lparr>roomTimers := roomTimers st1 @ [(now st1 + 60000, this)]\<rparr>
                       else st1,
                       effects))))"

text \<open>The callback of the authentication timer.\<close>

definition authTimeoutFired :: "sock \<Rightarrow> state \<Rightarrow> state \<times> effect list" where
  "authTimeoutFired ws st0 =
     (let st = st0\<lparr>conns := (conns st0)(ws := (conns st0 ws)\<lparr>authTimeout := None\<rparr>)\<rparr>
      in if room (conns st ws) = None then
           (wsClose ws (Some (1000, ''Authentication timeout'')) st,
            [Close ws (Some (1000, ''Authentication timeout''))])
         else (st, []))"

text \<open>The callback of the empty-room timer; \<open>this\<close> is the room its closure holds.\<close>

definition emptyRoomFired :: "rid \<Rightarrow> state \<Rightarrow> state" where
  "emptyRoomFired this st =
     (if isEmpty (heap st this) then st\<lparr>rooms := (rooms st)(code (heap st this) := None)\<rparr>
      else st)"

text \<open>\<^verbatim>\<open>wss.on('connection')\<close>: a new socket, its client id drawn at random.\<close>

definition onConnection :: "8 word list \<Rightarrow> string \<Rightarrow> string option \<Rightarrow> state \<Rightarrow> state" where
  "onConnection bytes addr agent st =
     st\<lparr>conns := (conns st)(nextSock st :=
           \<lparr>clientId = generateClientId bytes, room = None,
            authTimeout = Some (now st + AUTH_TIMEOUT), readyOpen = True, closed = False,
            ws_roomCode = None, ws_clientId = None, ws_role = None, remoteAddress = addr,
            userAgent = agent\<rparr>),
        nextSock := Suc (nextSock st)\<rparr>"

text \<open>
  \<^verbatim>\<open>POST /api/rooms\<close>. The room is in the map before the session document is written;
  \<open>dbOk\<close> says whether that write succeeds.
\<close>

definition createRoom :: "8 word \<times> 8 word \<times> 8 word \<Rightarrow> bool \<Rightarrow> state \<Rightarrow> state \<times> effect list" where
  "createRoom bytes dbOk st =
     (let roomCode = generateRoomCode bytes;
          this = nextRoom st
      in (st\<lparr>heap := (heap st)(this := newRoom roomCode (now st)),
              rooms := (rooms st)(roomCode \<mapsto> this),
              nextRoom := Suc this\<rparr>,
          [InsertSession roomCode,
           if dbOk then Reply 200 True (Some roomCode) else Reply 500 False None]))"

text \<open>\<^verbatim>\<open>DELETE /api/rooms/:roomCode\<close>\<close>

definition deleteRoom :: "string \<Rightarrow> bool \<Rightarrow> state \<Rightarrow> state \<times> effect list" where
  "deleteRoom roomCode dbOk st =
     (case rooms st roomCode of
        None \<Rightarrow> (st, [Reply 404 False None])
      | Some this \<Rightarrow>
          (let members = (case controller (heap st this) of None \<Rightarrow> [] | Some c \<Rightarrow> [c])
                         @ map snd (clients (heap st this))
           in ((fold (\<lambda>ws. wsClose ws None) members st)\<lparr>rooms := (rooms st)(roomCode := None)\<rparr>,
               map (\<lambda>ws. Close ws None) members
               @ [DeleteSession roomCode,
                  if dbOk then Reply 200 True None else Reply 500 False None])))"

section \<open>Runs\<close>

text \<open>
  What can happen to the process. A message or a close comes from a connection that exists
  and has not seen its \<^verbatim>\<open>close\<close> event; a timer fires when it is pending and due; the
  peer can start closing a socket at any time; time passes. An event that cannot happen in
  the current state changes nothing.
\<close>

datatype event =
    Connection "8 word list" string "string option"
  | Message sock "json option"
  | SocketClosed sock
  | PeerClosing sock
  | AuthTimer sock
  | EmptyRoomTimer nat rid
  | CreateRoom "8 word \<times> 8 word \<times> 8 word" bool
  | DeleteRoom string bool
  | Tick nat

definition live :: "state \<Rightarrow> sock \<Rightarrow> bool" where
  "live st ws = (ws < nextSock st \<and> \<not> closed (conns st ws))"

fun step :: "runtime \<Rightarrow> event \<Rightarrow> state \<Rightarrow> state \<times> effect list" where
  "step rt (Connection bytes addr agent) st = (onConnection bytes addr agent st, [])"
| "step rt (Message ws data) st = (if live st ws then onMessage rt ws data st else (st, []))"
| "step rt (SocketClosed ws) st = (if live st ws then onClose ws st else (st, []))"
| "step rt (PeerClosing ws) st = (if live st ws then (wsClose ws None st, []) else (st, []))"
| "step rt (AuthTimer ws) st =
     (case authTimeout (conns st ws) of
        None \<Rightarrow> (st, [])
      | Some due \<Rightarrow> if due \<le> now st then authTimeoutFired ws st else (st, []))"
| "step rt (EmptyRoomTimer due this) st =
     (if (due, this) \<in> set (roomTimers st) \<and> due \<le> now st
      then (emptyRoomFired this (st\<lparr>roomTimers := remove1 (due, this) (roomTimers st)\<rparr>), [])
      else (st, []))"
| "step rt (CreateRoom bytes dbOk) st = createRoom bytes dbOk st"
| "step rt (DeleteRoom roomCode dbOk) st = deleteRoom roomCode dbOk st"
| "step rt (Tick d) st = (st\<lparr>now := now st + d\<rparr>, [])"

fun run :: "runtime \<Rightarrow> event list \<Rightarrow> state \<Rightarrow> state \<times> effect list" where
  "run rt [] st = (st, [])"
| "run rt (e # es) st =
     (case step rt e st of
        (st1, effects) \<Rightarrow> (case run rt es st1 of (st2, rest) \<Rightarrow> (st2, effects @ rest)))"


section \<open>Membership and authentication\<close>

text \<open>A socket is a member of a room when it is the controller or one of the clients.\<close>

definition member :: "MetricsRoom \<Rightarrow> sock \<Rightarrow> bool" where
  "member r ws = (controller r = Some ws \<or> ws \<in> snd ` set (clients r))"

text \<open>The two ways a handler turns a session away: an \<^verbatim>\<open>error\<close> message and a close.\<close>

fun rejection :: "effect \<Rightarrow> bool" where
  "rejection (Close ws reason) = True"
| "rejection (Send ws (Error t)) = True"
| "rejection e = False"





section \<open>Sample inputs\<close>

text \<open>
  A runtime for the concrete runs below: none of them reads a string as a number, and the
  one number they print is 10.
\<close>

definition sampleRuntime :: runtime where
  "sampleRuntime = \<lparr>StringToNumber = (\<lambda>_. NaN), NumberToString = (\<lambda>_. ''10'')\<rparr>"

definition helloMessage :: "string \<Rightarrow> string \<Rightarrow> json" where
  "helloMessage r c = JObj [(''type'', JStr ''hello''), (''role'', JStr r), (''code'', JStr c)]"

definition metricsOf :: "props \<Rightarrow> json" where
  "metricsOf p = JObj [(''type'', JStr ''metrics''), (''payload'', JObj p)]"

definition settingsOf :: "props \<Rightarrow> json" where
  "settingsOf p = JObj [(''type'', JStr ''room_settings''), (''settings'', JObj p)]"

text \<open>A room is created and a first socket (socket 0) connects.\<close>

definition lobby :: "event list" where
  "lobby =
     [CreateRoom (0xA1, 0xB2, 0xC3) True,
      Connection [1, 2, 3, 4, 5, 6, 7, 8] ''10.0.0.1'' None]"

text \<open>A room is created; a controller (socket 0) and a client (socket 1) join it.\<close>

definition pairedRoom :: "event list" where
  "pairedRoom =
     [CreateRoom (0xA1, 0xB2, 0xC3) True,
      Connection [1, 2, 3, 4, 5, 6, 7, 8] ''10.0.0.1'' None,
      Message 0 (Some (helloMessage ''controller'' ''A1B2C3'')),
      Connection [9, 2, 3, 4, 5, 6, 7, 8] ''10.0.0.2'' None,
      Message 1 (Some (helloMessage ''client'' ''A1B2C3''))]"

text \<open>One more socket connects (socket 2 after \<open>pairedRoom\<close>).\<close>

definition thirdSocket :: event where
  "thirdSocket = Connection [7, 7, 7, 7, 7, 7, 7, 7] ''10.0.0.3'' None"


text \<open>A room object with a controller attached, as \<^verbatim>\<open>checkAlerts\<close> sees it.\<close>

definition sampleRoom :: MetricsRoom where
  "sampleRoom = (newRoom ''A1B2C3'' 0)\<lparr>controller := Some 0\<rparr>"

definition sampleEntry :: "nat \<Rightarrow> metricEntry" where
  "sampleEntry t =
     \<lparr>entry_fields = [(''entropy'', JNum 64)], entry_clientId = ''0902030405060708'',
      entry_roomCode = ''A1B2C3'', entry_timestamp = t, entry_receivedAt = t\<rparr>"

text \<open>
  The state after fifty sockets (0 to 49) have joined room \<^verbatim>\<open>A1B2C3\<close> as clients and one
  more socket (50) has connected and not yet said hello.
\<close>

definition memberId :: "nat \<Rightarrow> string" where
  "memberId i = generateClientId [0, 0, 0, 0, 0, 0, 0, of_nat i]"

definition fullRoom :: state where
  "fullRoom =
     \<lparr>rooms = [''A1B2C3'' \<mapsto> 0],
      heap = (\<lambda>_. newRoom [] 0)
               (0 := (newRoom ''A1B2C3'' 0)\<lparr>clients := map (\<lambda>i. (memberId i, i)) [0..<50]\<rparr>),
      nextRoom = 1,
      conns = (\<lambda>i. \<lparr>clientId = (if i < 50 then memberId i
                                  else generateClientId [255, 255, 255, 255, 255, 255, 255, 255]),
                     room = (if i < 50 then Some 0 else None),
                     authTimeout = (if i = 50 then Some 30000 else None),
                     readyOpen = (i \<le> 50), closed = (50 < i),
                     ws_roomCode = (if i < 50 then Some ''A1B2C3'' else None),
                     ws_clientId = (if i < 50 then Some (memberId i) else None),
                     ws_role = (if i < 50 then Some Client else None),
                     remoteAddress = ''10.0.0.2'', userAgent = None\<rparr>),
      nextSock = 51, roomTimers = [], now = 0\<rparr>"

section \<open>Unfolding the handlers\<close>

lemmas handlers =
  init_def generateRoomCode_def hexByte_def generateClientId_def createRoom_def
  deleteRoom_def onConnection_def onMessage_def hello_def addClient_def removeClient_def
  live_def wsClose_def newRoom_def onClose_def authTimeoutFired_def emptyRoomFired_def
  isEmpty_def sendToClient_def isOpen_def metricsMessage_def roomSettings_def addMetrics_def
  checkAlerts_def lowEntropy_def breached_def sendToController_def toTemplate_def assign_def
  MAX_CLIENTS_PER_ROOM_def AUTH_TIMEOUT_def Let_def trunc_def

section \<open>Facts about the handlers\<close>

lemma onMessage_branches:
  assumes "message \<noteq> JNull"
  shows "onMessage rt ws (Some message) st =
      (if get message ''type'' = Some (JStr ''hello'') then hello rt ws message st
          else if get message ''type'' = Some (JStr ''metrics'') \<and> room (conns st ws) \<noteq> None
                  \<and> ws_role (conns st ws) = Some Client then
            (case room (conns st ws) of
               None \<Rightarrow> (st, [])
             | Some this \<Rightarrow> metricsMessage rt ws this message st)
          else if get message ''type'' = Some (JStr ''room_settings'')
                  \<and> room (conns st ws) \<noteq> None \<and> ws_role (conns st ws) = Some Controller then
            (case room (conns st ws) of
               None \<Rightarrow> (st, [])
             | Some this \<Rightarrow> roomSettings this message st)
          else if get message ''type'' = Some (JStr ''ping'') then (st, [Send ws (Pong (now st))])
          else (st, []))"
  using assms by (cases message) (auto simp: onMessage_def)

lemma onMessage_hello:
  assumes "get message ''type'' = Some (JStr ''hello'')"
  shows "onMessage rt ws (Some message) st = hello rt ws message st"
proof -
  from assms have "message \<noteq> JNull" by auto
  from onMessage_branches [OF this] assms show ?thesis by simp
qed

lemma roomsGet_conns [simp]: "roomsGet (st\<lparr>conns := c\<rparr>) v = roomsGet st v"
proof (cases v)
  case None
  then show ?thesis by simp
next
  case (Some j)
  then show ?thesis by (cases j) simp_all
qed




lemma map_of_member: "map_of al k = Some v \<Longrightarrow> v \<in> snd ` set al"
  by (force dest: map_of_SomeD)

lemma length_update_new:
  "k \<notin> fst ` set al \<Longrightarrow> length (AList.update k v al) = Suc (length al)"
  by (induction al) auto



section \<open>Alert rules\<close>

lemma toTemplate_defined: "ToNumber rt v = Some n \<Longrightarrow> \<exists>s. toTemplate rt v = Some s"
proof (cases v)
  case None
  then show ?thesis by (simp add: toTemplate_def)
next
  case (Some j)
  assume n: "ToNumber rt v = Some n"
  show ?thesis
  proof (cases j)
    case (JArr xs)
    with Some n show ?thesis by (auto simp: toTemplate_def)
  next
    case (JObj kvs)
    with Some n show ?thesis by (auto simp: toTemplate_def split: if_splits)
  qed (use Some in \<open>simp_all add: toTemplate_def\<close>)
qed

lemma lowEntropy_kinds:
  assumes "ToNumber rt e = Some n"
  shows "\<exists>low. lowEntropy rt cid e = Some low
           \<and> map (\<lambda>a. (alert_type a, alert_severity a)) low
               = (if lessThan n (Fin 20) then [(''low_entropy'', ''warning'')] else [])"
proof -
  obtain s where "toTemplate rt e = Some s" using toTemplate_defined [OF assms] by blast
  with assms show ?thesis by (simp add: lowEntropy_def)
qed

lemma breached_kinds:
  "map (\<lambda>a. (alert_type a, alert_severity a)) (breached cid b)
     = (if truthy b then [(''breached_password'', ''critical'')] else [])"
  by (simp add: breached_def)

lemma checkAlerts_shape:
  "fst (checkAlerts rt opn r cid m) = []
   \<or> (\<exists>c as. controller r = Some c \<and> opn c
              \<and> fst (checkAlerts rt opn r cid m) = [Send c (Alerts as)])"
  by (auto simp: checkAlerts_def sendToController_def sendToClient_def Let_def
           split: option.splits)

text \<open>
  C6 (as amended). Take a metrics object whose \<^verbatim>\<open>entropy\<close> coerces to a number \<open>n\<close> without
  throwing (\<open>n\<close> is NaN when the field is missing). If the room's \<^verbatim>\<open>enableAlerts\<close> setting
  is falsy, \<^verbatim>\<open>checkAlerts\<close> returns at once and sends nothing. Otherwise it returns normally
  with a list of alerts that holds a \<^verbatim>\<open>low_entropy\<close> warning exactly when \<open>n < 20\<close>, followed
  by a \<^verbatim>\<open>breached_password\<close> critical alert exactly when \<^verbatim>\<open>breached\<close> is truthy, and
  nothing else; a non-empty list goes to the controller in one \<^verbatim>\<open>alerts\<close> message if a
  controller is attached and its socket is open, and nowhere otherwise.
\<close>

theorem checkAlerts_rules:
  assumes "ToNumber rt (map_of m ''entropy'') = Some n"
  shows "(\<not> truthy (map_of (settings r) ''enableAlerts'') \<longrightarrow>
            checkAlerts rt opn r cid m = ([], Normal))
       \<and> (truthy (map_of (settings r) ''enableAlerts'') \<longrightarrow>
            (\<exists>alerts.
               map (\<lambda>a. (alert_type a, alert_severity a)) alerts
                 = (if lessThan n (Fin 20) then [(''low_entropy'', ''warning'')] else [])
                   @ (if truthy (map_of m ''breached'')
                      then [(''breached_password'', ''critical'')] else [])
             \<and> checkAlerts rt opn r cid m
                 = (if alerts = [] then []
                    else (case controller r of
                            None \<Rightarrow> []
                          | Some c \<Rightarrow> if opn c then [Send c (Alerts alerts)] else []),
                    Normal)))"
proof -
  obtain low where low: "lowEntropy rt cid (map_of m ''entropy'') = Some low"
    and lowk: "map (\<lambda>a. (alert_type a, alert_severity a)) low
               = (if lessThan n (Fin 20) then [(''low_entropy'', ''warning'')] else [])"
    using lowEntropy_kinds [OF assms] by blast
  let ?alerts = "low @ breached cid (map_of m ''breached'')"
  have k: "map (\<lambda>a. (alert_type a, alert_severity a)) ?alerts
             = (if lessThan n (Fin 20) then [(''low_entropy'', ''warning'')] else [])
               @ (if truthy (map_of m ''breached'')
                  then [(''breached_password'', ''critical'')] else [])"
    using lowk by (simp add: breached_kinds)
  have e: "truthy (map_of (settings r) ''enableAlerts'') \<Longrightarrow>
             checkAlerts rt opn r cid m
               = (if ?alerts = [] then []
                  else (case controller r of
                          None \<Rightarrow> []
                        | Some c \<Rightarrow> if opn c then [Send c (Alerts ?alerts)] else []),
                  Normal)"
    using low by (simp add: checkAlerts_def sendToController_def sendToClient_def Let_def
                       split: option.splits)
  show ?thesis
  proof (intro conjI impI)
    assume "\<not> truthy (map_of (settings r) ''enableAlerts'')"
    then show "checkAlerts rt opn r cid m = ([], Normal)" by (simp add: checkAlerts_def)
  next
    assume "truthy (map_of (settings r) ''enableAlerts'')"
    from e [OF this] k show "\<exists>alerts.
               map (\<lambda>a. (alert_type a, alert_severity a)) alerts
                 = (if lessThan n (Fin 20) then [(''low_entropy'', ''warning'')] else [])
                   @ (if truthy (map_of m ''breached'')
                      then [(''breached_password'', ''critical'')] else [])
             \<and> checkAlerts rt opn r cid m
                 = (if alerts = [] then []
                    else (case controller r of
                            None \<Rightarrow> []
                          | Some c \<Rightarrow> if opn c then [Send c (Alerts alerts)] else []),
                    Normal)" by blast
  qed
qed

text \<open>
  The rules at one payload with \<^verbatim>\<open>entropy = 10\<close> and \<^verbatim>\<open>breached = true\<close>: both alerts, in
  one message.
\<close>

theorem checkAlerts_rules_witness:
  "ToNumber sampleRuntime (map_of [(''entropy'', JNum 10), (''breached'', JBool True)] ''entropy'')
     = Some (Fin 10)
   \<and> truthy (map_of (settings sampleRoom) ''enableAlerts'')
   \<and> checkAlerts sampleRuntime (\<lambda>_. True) sampleRoom ''0102030405060708''
        [(''entropy'', JNum 10), (''breached'', JBool True)]
      = ([Send 0 (Alerts
            [\<lparr>alert_type = ''low_entropy'', alert_severity = ''warning'',
               alert_message = ''Client 01020304 has very low password entropy: 10''\<rparr>,
             \<lparr>alert_type = ''breached_password'', alert_severity = ''critical'',
               alert_message = ''Client 01020304 attempted to use a breached password!''\<rparr>])],
         Normal)"
  using checkAlerts_rules [of sampleRuntime "[(''entropy'', JNum 10), (''breached'', JBool True)]"
      "Fin 10" sampleRoom "\<lambda>_. True" "''0102030405060708''"]
  by (simp add: handlers sampleRuntime_def sampleRoom_def)

text \<open>
  C6 as stated fails: a payload whose \<^verbatim>\<open>breached\<close> field is the string \<^verbatim>\<open>"no"\<close>, which is
  not \<^verbatim>\<open>true\<close>, raises the critical alert, because the rule tests truthiness.
\<close>

theorem checkAlerts_truthy_counterexample:
  "map_of [(''entropy'', JNum 64), (''breached'', JStr ''no'')] ''breached'' \<noteq> Some (JBool True)
   \<and> checkAlerts sampleRuntime (\<lambda>_. True) sampleRoom ''0102030405060708''
        [(''entropy'', JNum 64), (''breached'', JStr ''no'')]
      = ([Send 0 (Alerts
            [\<lparr>alert_type = ''breached_password'', alert_severity = ''critical'',
               alert_message = ''Client 01020304 attempted to use a breached password!''\<rparr>])],
         Normal)"
  by (simp add: handlers sampleRuntime_def sampleRoom_def)

section \<open>Metric ingestion\<close>

lemma addMetrics_returns:
  assumes "ToNumber rt (map_of (settings r) ''maxMetricsHistory'') = Some cap"
  shows "addMetrics rt opn t r cid m =
     (let e = \<lparr>entry_fields = m, entry_clientId = cid, entry_roomCode = code r,
                entry_timestamp = t, entry_receivedAt = t\<rparr>;
          r3 = r\<lparr>metrics := (if lessThan cap (Fin (real (Suc (length (metrics r)))))
                              then slice (negate cap) (metrics r @ [e]) else metrics r @ [e]),
                 lastActivity := t\<rparr>
      in (r3,
          InsertMetric e # sendToController opn r (Metrics cid m t)
          @ fst (checkAlerts rt opn r3 cid m),
          snd (checkAlerts rt opn r3 cid m)))"
  using assms
  by (simp add: addMetrics_def Let_def sendToController_def split: prod.splits)

text \<open>
  C1 (as amended). A \<^verbatim>\<open>metrics\<close> message with a truthy payload, from a session whose
  \<^verbatim>\<open>room\<close> is set and whose role is client, in a room whose \<^verbatim>\<open>maxMetricsHistory\<close> setting
  coerces to a number without throwing, does this, in this order: the new record is appended
  to the room's buffer (and the buffer trimmed); \<^verbatim>\<open>insertOne\<close> is called once with that
  record; one \<^verbatim>\<open>metrics\<close> message goes to the controller if a controller is attached and
  its socket is open, and none otherwise; then at most one \<^verbatim>\<open>alerts\<close> message goes to that
  controller. Whether the insert succeeds plays no part in the rest; an exception out of
  the alert check adds an \<^verbatim>\<open>error\<close> message to the sender and undoes nothing.
\<close>

theorem metrics_ingestion:
  assumes "get message ''type'' = Some (JStr ''metrics'')"
      and "room (conns st ws) = Some this"
      and "ws_role (conns st ws) = Some Client"
      and "get message ''payload'' = Some p"
      and "truthy (Some p)"
      and "ToNumber rt (map_of (settings (heap st this)) ''maxMetricsHistory'') = Some cap"
  shows "\<exists>m e alerts err.
           m = assign (ownProps p)
                 [(''ip'', JStr (remoteAddress (conns st ws))),
                  (''userAgent'',
                   JStr (case userAgent (conns st ws) of
                           None \<Rightarrow> ''unknown''
                         | Some u \<Rightarrow> if u = [] then ''unknown'' else u))]
         \<and> e = \<lparr>entry_fields = m, entry_clientId = clientId (conns st ws),
                 entry_roomCode = code (heap st this), entry_timestamp = now st,
                 entry_receivedAt = now st\<rparr>
         \<and> onMessage rt ws (Some message) st =
             (st\<lparr>heap := (heap st)(this := (heap st this)
                   \<lparr>metrics :=
                      (if lessThan cap (Fin (real (Suc (length (metrics (heap st this))))))
                       then slice (negate cap) (metrics (heap st this) @ [e])
                       else metrics (heap st this) @ [e]),
                    lastActivity := now st\<rparr>)\<rparr>,
              InsertMetric e
              # (case controller (heap st this) of
                   None \<Rightarrow> []
                 | Some c \<Rightarrow>
                     if isOpen st c then [Send c (Metrics (clientId (conns st ws)) m (now st))]
                     else [])
              @ alerts @ err)
         \<and> (alerts = []
              \<or> (\<exists>c as. controller (heap st this) = Some c \<and> isOpen st c
                         \<and> alerts = [Send c (Alerts as)]))
         \<and> (err = [] \<or> err = [Send ws (Error ''Invalid message format'')])"
proof -
  let ?m = "assign (ownProps p)
                 [(''ip'', JStr (remoteAddress (conns st ws))),
                  (''userAgent'',
                   JStr (case userAgent (conns st ws) of
                           None \<Rightarrow> ''unknown''
                         | Some u \<Rightarrow> if u = [] then ''unknown'' else u))]"
  let ?e = "\<lparr>entry_fields = ?m, entry_clientId = clientId (conns st ws),
                 entry_roomCode = code (heap st this), entry_timestamp = now st,
                 entry_receivedAt = now st\<rparr>"
  let ?r3 = "(heap st this)
                   \<lparr>metrics :=
                      (if lessThan cap (Fin (real (Suc (length (metrics (heap st this))))))
                       then slice (negate cap) (metrics (heap st this) @ [?e])
                       else metrics (heap st this) @ [?e]),
                    lastActivity := now st\<rparr>"
  let ?chk = "checkAlerts rt (isOpen st) ?r3 (clientId (conns st ws)) ?m"
  let ?err = "case snd ?chk of Normal \<Rightarrow> [] | Throw \<Rightarrow> [Send ws (Error ''Invalid message format'')]"
  have notnull: "message \<noteq> JNull" using assms(1) by auto
  have branch: "onMessage rt ws (Some message) st = metricsMessage rt ws this message st"
    using assms(1,2,3) by (simp add: onMessage_branches [OF notnull])
  have "metricsMessage rt ws this message st =
          (st\<lparr>heap := (heap st)(this := ?r3)\<rparr>,
           InsertMetric ?e
           # sendToController (isOpen st) (heap st this)
               (Metrics (clientId (conns st ws)) ?m (now st))
           @ fst ?chk @ ?err)"
    using assms(4,5) addMetrics_returns [OF assms(6)]
    by (simp add: metricsMessage_def Let_def)
  moreover have "sendToController (isOpen st) (heap st this)
                   (Metrics (clientId (conns st ws)) ?m (now st))
     = (case controller (heap st this) of
                   None \<Rightarrow> []
                 | Some c \<Rightarrow>
                     if isOpen st c then [Send c (Metrics (clientId (conns st ws)) ?m (now st))]
                     else [])"
    by (simp add: sendToController_def sendToClient_def split: option.splits)
  moreover have "fst ?chk = []
              \<or> (\<exists>c as. controller (heap st this) = Some c \<and> isOpen st c
                         \<and> fst ?chk = [Send c (Alerts as)])"
    using checkAlerts_shape [of rt "isOpen st" ?r3 "clientId (conns st ws)" ?m] by simp
  moreover have "?err = [] \<or> ?err = [Send ws (Error ''Invalid message format'')]"
    by (cases "snd ?chk") simp_all
  ultimately show ?thesis using branch
    by (intro exI [of _ ?m] exI [of _ ?e] exI [of _ "fst ?chk"] exI [of _ ?err]) simp
qed

text \<open>
  The ingestion of a payload with \<^verbatim>\<open>entropy = 10\<close> and \<^verbatim>\<open>breached = true\<close> from the client
  of the paired room: the insert, the forward and one batch of two alerts.
\<close>

theorem metrics_ingestion_witness:
  "get (metricsOf [(''entropy'', JNum 10), (''breached'', JBool True)]) ''type''
     = Some (JStr ''metrics'')
   \<and> room (conns (fst (run sampleRuntime pairedRoom init)) 1) = Some 0
   \<and> ws_role (conns (fst (run sampleRuntime pairedRoom init)) 1) = Some Client
   \<and> get (metricsOf [(''entropy'', JNum 10), (''breached'', JBool True)]) ''payload''
     = Some (JObj [(''entropy'', JNum 10), (''breached'', JBool True)])
   \<and> truthy (Some (JObj [(''entropy'', JNum 10), (''breached'', JBool True)]))
   \<and> ToNumber sampleRuntime
        (map_of (settings (heap (fst (run sampleRuntime pairedRoom init)) 0)) ''maxMetricsHistory'')
     = Some (Fin 1000)
   \<and> snd (onMessage sampleRuntime 1
             (Some (metricsOf [(''entropy'', JNum 10), (''breached'', JBool True)]))
             (fst (run sampleRuntime pairedRoom init)))
     = [InsertMetric
          \<lparr>entry_fields = [(''entropy'', JNum 10), (''breached'', JBool True),
                           (''ip'', JStr ''10.0.0.2''), (''userAgent'', JStr ''unknown'')],
           entry_clientId = ''0902030405060708'', entry_roomCode = ''A1B2C3'',
           entry_timestamp = 0, entry_receivedAt = 0\<rparr>,
        Send 0 (Metrics ''0902030405060708''
                  [(''entropy'', JNum 10), (''breached'', JBool True),
                   (''ip'', JStr ''10.0.0.2''), (''userAgent'', JStr ''unknown'')] 0),
        Send 0 (Alerts
            [\<lparr>alert_type = ''low_entropy'', alert_severity = ''warning'',
               alert_message = ''Client 09020304 has very low password entropy: 10''\<rparr>,
             \<lparr>alert_type = ''breached_password'', alert_severity = ''critical'',
               alert_message = ''Client 09020304 attempted to use a breached password!''\<rparr>])]"
  using metrics_ingestion [of "metricsOf [(''entropy'', JNum 10), (''breached'', JBool True)]"
      "fst (run sampleRuntime pairedRoom init)" 1 0
      "JObj [(''entropy'', JNum 10), (''breached'', JBool True)]" sampleRuntime "Fin 1000"]
  by (simp add: handlers sampleRuntime_def pairedRoom_def helloMessage_def metricsOf_def)

text \<open>
  C1 as stated fails: after the controller's peer has started to close its socket (the
  \<^verbatim>\<open>close\<close> event is still to come), the controller is attached to the room and a client's
  metrics message is stored and forwarded to nobody.
\<close>

theorem metrics_forward_needs_open_counterexample:
  "controller (heap (fst (run sampleRuntime (pairedRoom @ [PeerClosing 0]) init)) 0) = Some 0
   \<and> snd (step sampleRuntime (Message 1 (Some (metricsOf [(''entropy'', JNum 64)])))
           (fst (run sampleRuntime (pairedRoom @ [PeerClosing 0]) init)))
     = [InsertMetric
          \<lparr>entry_fields = [(''entropy'', JNum 64), (''ip'', JStr ''10.0.0.2''),
                           (''userAgent'', JStr ''unknown'')],
           entry_clientId = ''0902030405060708'', entry_roomCode = ''A1B2C3'',
           entry_timestamp = 0, entry_receivedAt = 0\<rparr>]"
  by (simp add: handlers sampleRuntime_def pairedRoom_def helloMessage_def metricsOf_def)

section \<open>The metrics buffer\<close>

lemma trunc_neg: "1 \<le> c \<Longrightarrow> trunc (- c) = - \<lfloor>c\<rfloor>"
  by (simp add: trunc_def ceiling_def)

lemma map_of_assign:
  "distinct (map fst b) \<Longrightarrow>
     map_of (assign a b) k = (case map_of b k of None \<Rightarrow> map_of a k | Some v \<Rightarrow> Some v)"
proof (induction b arbitrary: a)
  case Nil
  then show ?case by (simp add: assign_def)
next
  case (Cons p b)
  obtain k' v' where p: "p = (k', v')" by (cases p)
  from Cons.prems have d: "distinct (map fst b)" and fresh: "k' \<notin> fst ` set b"
    by (simp_all add: p)
  have step: "assign a (p # b) = assign (AList.update k' v' a) b"
    by (simp add: assign_def p)
  show ?case
  proof (cases "k = k'")
    case True
    with fresh have "map_of b k = None" by (simp add: map_of_eq_None_iff)
    then show ?thesis unfolding step Cons.IH [OF d] using True by (simp add: p update_conv')
  next
    case False
    then have "map_of (AList.update k' v' a) k = map_of a k" by (simp add: update_conv')
    with False show ?thesis unfolding step Cons.IH [OF d] by (simp add: p split: option.splits)
  qed
qed

lemma roomSettings_update:
  assumes "get message ''settings'' = Some (JObj kvs)" and "distinct (map fst kvs)"
      and "map_of kvs k = Some v"
  shows "map_of (settings (heap (fst (roomSettings this message st)) this)) k = Some v
       \<and> metrics (heap (fst (roomSettings this message st)) this) = metrics (heap st this)"
  using assms by (simp add: roomSettings_def Let_def map_of_assign)

lemma onMessage_roomSettings:
  assumes "get message ''type'' = Some (JStr ''room_settings'')"
      and "room (conns st ws) = Some this" and "ws_role (conns st ws) = Some Controller"
  shows "onMessage rt ws (Some message) st = roomSettings this message st"
proof -
  from assms(1) have "message \<noteq> JNull" by auto
  from onMessage_branches [OF this] assms show ?thesis by simp
qed

lemma addMetrics_trims:
  assumes "map_of (settings r) ''maxMetricsHistory'' = Some (JNum c)" and "1 \<le> c"
  shows "metrics (fst (addMetrics rt opn t r cid m))
           = drop (Suc (length (metrics r)) - nat \<lfloor>c\<rfloor>)
               (metrics r @ [\<lparr>entry_fields = m, entry_clientId = cid, entry_roomCode = code r,
                              entry_timestamp = t, entry_receivedAt = t\<rparr>])
       \<and> real (length (metrics (fst (addMetrics rt opn t r cid m)))) \<le> c"
proof -
  let ?e = "\<lparr>entry_fields = m, entry_clientId = cid, entry_roomCode = code r,
                              entry_timestamp = t, entry_receivedAt = t\<rparr>"
  let ?n = "length (metrics r)"
  have cap: "ToNumber rt (map_of (settings r) ''maxMetricsHistory'') = Some (Fin c)"
    using assms(1) by simp
  have m: "metrics (fst (addMetrics rt opn t r cid m))
        = (if c < real (Suc ?n) then slice (Fin (- c)) (metrics r @ [?e]) else metrics r @ [?e])"
    using cap by (simp add: addMetrics_def Let_def split: prod.splits)
  have fl: "1 \<le> \<lfloor>c\<rfloor>" using assms(2) by linarith
  have first: "metrics (fst (addMetrics rt opn t r cid m))
           = drop (Suc ?n - nat \<lfloor>c\<rfloor>) (metrics r @ [?e])"
  proof (cases "c < real (Suc ?n)")
    case True
    then have "\<lfloor>c\<rfloor> \<le> int ?n" by linarith
    then have "nat (max (int (Suc ?n) + trunc (- c)) 0) = Suc ?n - nat \<lfloor>c\<rfloor>"
      using fl assms(2) by (simp add: trunc_neg) linarith
    moreover have "trunc (- c) < 0" using fl assms(2) by (simp add: trunc_neg)
    ultimately show ?thesis using True by (simp add: m del: of_nat_Suc)
  next
    case False
    then have "int (Suc ?n) \<le> \<lfloor>c\<rfloor>" by linarith
    then have "Suc ?n - nat \<lfloor>c\<rfloor> = 0" by linarith
    with False show ?thesis by (simp add: m)
  qed
  have "length (metrics (fst (addMetrics rt opn t r cid m))) = Suc ?n - (Suc ?n - nat \<lfloor>c\<rfloor>)"
    by (simp add: first)
  also have "real \<dots> \<le> c"
  proof (cases "nat \<lfloor>c\<rfloor> \<le> Suc ?n")
    case True
    then have "Suc ?n - (Suc ?n - nat \<lfloor>c\<rfloor>) = nat \<lfloor>c\<rfloor>" by simp
    moreover have "real (nat \<lfloor>c\<rfloor>) \<le> c" using fl by (simp add: of_nat_nat)
    ultimately show ?thesis by simp
  next
    case False
    then have "Suc ?n - (Suc ?n - nat \<lfloor>c\<rfloor>) = Suc ?n" and "real (Suc ?n) \<le> real (nat \<lfloor>c\<rfloor>)"
      by simp_all
    moreover have "real (nat \<lfloor>c\<rfloor>) \<le> c" using fl by (simp add: of_nat_nat)
    ultimately show ?thesis by linarith
  qed
  finally have second: "real (length (metrics (fst (addMetrics rt opn t r cid m)))) \<le> c" .
  from first second show ?thesis by blast
qed

text \<open>
  C5 (as amended). After an ingestion into a room whose \<^verbatim>\<open>maxMetricsHistory\<close> is a number
  \<open>c \<ge> 1\<close>, the buffer is the old buffer followed by the new record, less as many of its
  oldest entries as it takes to leave at most \<open>\<lfloor>c\<rfloor>\<close>; so its length is at most \<open>c\<close> and the
  survivors keep their order. A \<^verbatim>\<open>room_settings\<close> message of the room's controller whose
  \<^verbatim>\<open>settings\<close> object has a \<^verbatim>\<open>maxMetricsHistory\<close> field sets the room's
  \<^verbatim>\<open>maxMetricsHistory\<close> to that value and leaves the buffer as it is; when the value is a
  number \<open>c' \<ge> 1\<close>, the next ingestion into the room trims the buffer to at most \<open>c'\<close>,
  oldest entries first.
\<close>

theorem addMetrics_bounded:
  assumes "map_of (settings r) ''maxMetricsHistory'' = Some (JNum c)" and "1 \<le> c"
  shows "metrics (fst (addMetrics rt opn t r cid m))
           = drop (Suc (length (metrics r)) - nat \<lfloor>c\<rfloor>)
               (metrics r @ [\<lparr>entry_fields = m, entry_clientId = cid, entry_roomCode = code r,
                              entry_timestamp = t, entry_receivedAt = t\<rparr>])
       \<and> real (length (metrics (fst (addMetrics rt opn t r cid m)))) \<le> c
       \<and> metrics (heap (fst (roomSettings this message st)) this) = metrics (heap st this)
       \<and> (get message ''type'' = Some (JStr ''room_settings'')
            \<and> room (conns st ws) = Some this \<and> ws_role (conns st ws) = Some Controller
            \<and> get message ''settings'' = Some (JObj kvs) \<and> distinct (map fst kvs)
            \<and> map_of kvs ''maxMetricsHistory'' = Some v \<longrightarrow>
              map_of (settings (heap (fst (onMessage rt ws (Some message) st)) this))
                  ''maxMetricsHistory'' = Some v
              \<and> metrics (heap (fst (onMessage rt ws (Some message) st)) this)
                  = metrics (heap st this)
              \<and> (\<forall>c'. v = JNum c' \<and> 1 \<le> c' \<longrightarrow>
                     metrics (fst (addMetrics rt opn t
                                (heap (fst (onMessage rt ws (Some message) st)) this) cid m))
                       = drop (Suc (length (metrics (heap st this))) - nat \<lfloor>c'\<rfloor>)
                           (metrics (heap st this)
                            @ [\<lparr>entry_fields = m, entry_clientId = cid,
                                 entry_roomCode = code (heap st this),
                                 entry_timestamp = t, entry_receivedAt = t\<rparr>])
                     \<and> real (length (metrics (fst (addMetrics rt opn t
                                (heap (fst (onMessage rt ws (Some message) st)) this) cid m))))
                         \<le> c'))"
proof -
  have first: "metrics (fst (addMetrics rt opn t r cid m))
           = drop (Suc (length (metrics r)) - nat \<lfloor>c\<rfloor>)
               (metrics r @ [\<lparr>entry_fields = m, entry_clientId = cid, entry_roomCode = code r,
                              entry_timestamp = t, entry_receivedAt = t\<rparr>])
       \<and> real (length (metrics (fst (addMetrics rt opn t r cid m)))) \<le> c"
    using assms by (rule addMetrics_trims)
  have third: "metrics (heap (fst (roomSettings this message st)) this) = metrics (heap st this)"
    by (simp add: roomSettings_def Let_def split: option.splits)
  have fourth: "map_of (settings (heap (fst (onMessage rt ws (Some message) st)) this))
                  ''maxMetricsHistory'' = Some v
              \<and> metrics (heap (fst (onMessage rt ws (Some message) st)) this)
                  = metrics (heap st this)
              \<and> (\<forall>c'. v = JNum c' \<and> 1 \<le> c' \<longrightarrow>
                     metrics (fst (addMetrics rt opn t
                                (heap (fst (onMessage rt ws (Some message) st)) this) cid m))
                       = drop (Suc (length (metrics (heap st this))) - nat \<lfloor>c'\<rfloor>)
                           (metrics (heap st this)
                            @ [\<lparr>entry_fields = m, entry_clientId = cid,
                                 entry_roomCode = code (heap st this),
                                 entry_timestamp = t, entry_receivedAt = t\<rparr>])
                     \<and> real (length (metrics (fst (addMetrics rt opn t
                                (heap (fst (onMessage rt ws (Some message) st)) this) cid m))))
                         \<le> c')"
    if h: "get message ''type'' = Some (JStr ''room_settings'')
            \<and> room (conns st ws) = Some this \<and> ws_role (conns st ws) = Some Controller
            \<and> get message ''settings'' = Some (JObj kvs) \<and> distinct (map fst kvs)
            \<and> map_of kvs ''maxMetricsHistory'' = Some v"
  proof -
    let ?r = "heap (fst (onMessage rt ws (Some message) st)) this"
    from h have branch: "onMessage rt ws (Some message) st = roomSettings this message st"
      by (intro onMessage_roomSettings) simp_all
    from h have upd: "map_of (settings ?r) ''maxMetricsHistory'' = Some v
        \<and> metrics ?r = metrics (heap st this)"
      unfolding branch by (intro roomSettings_update [of message kvs]) simp_all
    have same: "code ?r = code (heap st this)"
      unfolding branch by (simp add: roomSettings_def Let_def split: option.splits)
    have "metrics (fst (addMetrics rt opn t ?r cid m))
                       = drop (Suc (length (metrics (heap st this))) - nat \<lfloor>c'\<rfloor>)
                           (metrics (heap st this)
                            @ [\<lparr>entry_fields = m, entry_clientId = cid,
                                 entry_roomCode = code (heap st this),
                                 entry_timestamp = t, entry_receivedAt = t\<rparr>])
          \<and> real (length (metrics (fst (addMetrics rt opn t ?r cid m)))) \<le> c'"
      if "v = JNum c' \<and> 1 \<le> c'" for c'
    proof -
      from that upd have "map_of (settings ?r) ''maxMetricsHistory'' = Some (JNum c')"
        and "1 \<le> c'" by simp_all
      moreover from upd have "metrics ?r = metrics (heap st this)" by blast
      ultimately show ?thesis
        using addMetrics_trims [of ?r c' rt opn t cid m] unfolding same by metis
    qed
    with upd show ?thesis by blast
  qed
  from first third fourth show ?thesis by blast
qed

text \<open>
  A buffer of two at capacity 2 takes a third record and drops the oldest. In the paired
  room, with two records in the buffer, the controller sets \<^verbatim>\<open>maxMetricsHistory\<close> to 1:
  the setting is 1, the buffer still holds two records, and the next ingestion leaves one.
\<close>

theorem addMetrics_bounded_witness:
  "map_of (settings ((newRoom ''A1B2C3'' 0)
             \<lparr>metrics := [sampleEntry 1, sampleEntry 2],
              settings := [(''maxMetricsHistory'', JNum 2)]\<rparr>)) ''maxMetricsHistory''
     = Some (JNum 2)
   \<and> (1::real) \<le> 2
   \<and> metrics (fst (addMetrics sampleRuntime (\<lambda>_. True) 3
        ((newRoom ''A1B2C3'' 0)
             \<lparr>metrics := [sampleEntry 1, sampleEntry 2],
              settings := [(''maxMetricsHistory'', JNum 2)]\<rparr>)
        ''0902030405060708'' [(''entropy'', JNum 64)]))
     = [sampleEntry 2, sampleEntry 3]
   \<and> get (settingsOf [(''maxMetricsHistory'', JNum 1)]) ''type'' = Some (JStr ''room_settings'')
   \<and> room (conns (fst (run sampleRuntime
            (pairedRoom @ [Message 1 (Some (metricsOf [(''entropy'', JNum 64)])),
                           Message 1 (Some (metricsOf [(''entropy'', JNum 64)]))]) init)) 0)
       = Some 0
   \<and> ws_role (conns (fst (run sampleRuntime
            (pairedRoom @ [Message 1 (Some (metricsOf [(''entropy'', JNum 64)])),
                           Message 1 (Some (metricsOf [(''entropy'', JNum 64)]))]) init)) 0)
       = Some Controller
   \<and> get (settingsOf [(''maxMetricsHistory'', JNum 1)]) ''settings''
       = Some (JObj [(''maxMetricsHistory'', JNum 1)])
   \<and> distinct (map fst [(''maxMetricsHistory'', JNum 1)])
   \<and> map_of [(''maxMetricsHistory'', JNum 1)] ''maxMetricsHistory'' = Some (JNum 1)
   \<and> (1::real) \<le> 1
   \<and> map_of (settings (heap (fst (onMessage sampleRuntime 0
                 (Some (settingsOf [(''maxMetricsHistory'', JNum 1)]))
                 (fst (run sampleRuntime
            (pairedRoom @ [Message 1 (Some (metricsOf [(''entropy'', JNum 64)])),
                           Message 1 (Some (metricsOf [(''entropy'', JNum 64)]))]) init)))) 0))
         ''maxMetricsHistory'' = Some (JNum 1)
   \<and> length (metrics (heap (fst (onMessage sampleRuntime 0
                 (Some (settingsOf [(''maxMetricsHistory'', JNum 1)]))
                 (fst (run sampleRuntime
            (pairedRoom @ [Message 1 (Some (metricsOf [(''entropy'', JNum 64)])),
                           Message 1 (Some (metricsOf [(''entropy'', JNum 64)]))]) init)))) 0)) = 2
   \<and> length (metrics (fst (addMetrics sampleRuntime (\<lambda>_. True) 3
         (heap (fst (onMessage sampleRuntime 0
                 (Some (settingsOf [(''maxMetricsHistory'', JNum 1)]))
                 (fst (run sampleRuntime
            (pairedRoom @ [Message 1 (Some (metricsOf [(''entropy'', JNum 64)])),
                           Message 1 (Some (metricsOf [(''entropy'', JNum 64)]))]) init)))) 0)
         ''0902030405060708'' [(''entropy'', JNum 64)]))) = 1"
  using addMetrics_bounded [where r = "(newRoom ''A1B2C3'' 0)
             \<lparr>metrics := [sampleEntry 1, sampleEntry 2],
              settings := [(''maxMetricsHistory'', JNum 2)]\<rparr>" and c = 2
        and message = "settingsOf [(''maxMetricsHistory'', JNum 1)]"
        and st = "fst (run sampleRuntime
            (pairedRoom @ [Message 1 (Some (metricsOf [(''entropy'', JNum 64)])),
                           Message 1 (Some (metricsOf [(''entropy'', JNum 64)]))]) init)"
        and ws = 0 and this = 0 and kvs = "[(''maxMetricsHistory'', JNum 1)]" and v = "JNum 1"
        and rt = sampleRuntime and opn = "\<lambda>_. True" and t = 3
        and cid = "''0902030405060708''" and m = "[(''entropy'', JNum 64)]"]
  by (simp add: handlers sampleRuntime_def sampleEntry_def pairedRoom_def helloMessage_def
        metricsOf_def settingsOf_def)

text \<open>
  C5 as stated fails: with two records in the buffer the controller sets
  \<^verbatim>\<open>maxMetricsHistory\<close> to 1, and the buffer still holds two records.
\<close>

theorem settings_update_keeps_buffer_counterexample:
  "length (metrics (heap (fst (run sampleRuntime
      (pairedRoom
       @ [Message 1 (Some (metricsOf [(''entropy'', JNum 64)])),
          Message 1 (Some (metricsOf [(''entropy'', JNum 64)])),
          Message 0 (Some (settingsOf [(''maxMetricsHistory'', JNum 1)]))]) init)) 0)) = 2
   \<and> map_of (settings (heap (fst (run sampleRuntime
      (pairedRoom
       @ [Message 1 (Some (metricsOf [(''entropy'', JNum 64)])),
          Message 1 (Some (metricsOf [(''entropy'', JNum 64)])),
          Message 0 (Some (settingsOf [(''maxMetricsHistory'', JNum 1)]))]) init)) 0))
        ''maxMetricsHistory'' = Some (JNum 1)"
  by (simp add: handlers sampleRuntime_def pairedRoom_def helloMessage_def metricsOf_def
        settingsOf_def)

section \<open>The hello handshake\<close>

lemma addClient_string_role: "snd (snd (addClient rt this cid ws (Some (JStr s)) st)) = Normal"
  by (simp add: addClient_def Let_def toTemplate_def)

lemma hello_accepts:
  assumes "get message ''role'' = Some (JStr s)" and "s \<noteq> []"
      and "truthy (get message ''code'')"
      and "roomsGet st (get message ''code'') = Some this"
      and "\<not> (s = ''client'' \<and> MAX_CLIENTS_PER_ROOM \<le> length (clients (heap st this)))"
  shows "hello rt ws message st =
           (fst (addClient rt this (clientId (conns st ws)) ws (Some (JStr s))
                  (st\<lparr>conns := (conns st)(ws := (conns st ws)
                         \<lparr>authTimeout := None, room := Some this\<rparr>)\<rparr>)),
            fst (snd (addClient rt this (clientId (conns st ws)) ws (Some (JStr s))
                  (st\<lparr>conns := (conns st)(ws := (conns st ws)
                         \<lparr>authTimeout := None, room := Some this\<rparr>)\<rparr>))))"
proof -
  let ?st1 = "st\<lparr>conns := (conns st)(ws := (conns st ws)
                         \<lparr>authTimeout := None, room := Some this\<rparr>)\<rparr>"
  obtain st2 effects c
    where a: "addClient rt this (clientId (conns st ws)) ws (Some (JStr s)) ?st1
                = (st2, effects, c)"
    using prod_cases3 by blast
  from addClient_string_role [of rt this "clientId (conns st ws)" ws s ?st1] a
  have "c = Normal" by simp
  with assms a show ?thesis by (auto simp: hello_def Let_def)
qed

lemma hello_rejects:
  "(\<not> truthy (get message ''role'') \<or> \<not> truthy (get message ''code'') \<longrightarrow>
      snd (hello rt ws message st) = [Close ws (Some (1000, ''Invalid authentication''))]
      \<and> heap (fst (hello rt ws message st)) = heap st)
   \<and> (truthy (get message ''role'') \<and> truthy (get message ''code'')
        \<and> roomsGet st (get message ''code'') = None \<longrightarrow>
      snd (hello rt ws message st)
        = [Send ws (Error ''Invalid room code''), Close ws (Some (1000, ''Invalid room code''))]
      \<and> heap (fst (hello rt ws message st)) = heap st)
   \<and> (truthy (get message ''code'') \<and> roomsGet st (get message ''code'') = Some this
        \<and> get message ''role'' = Some (JStr ''client'')
        \<and> MAX_CLIENTS_PER_ROOM \<le> length (clients (heap st this)) \<longrightarrow>
      snd (hello rt ws message st)
        = [Send ws (Error ''Room is full''), Close ws (Some (1000, ''Room is full''))]
      \<and> heap (fst (hello rt ws message st)) = heap st)"
  by (simp add: hello_def Let_def wsClose_def)

lemma addClient_controller:
  "controller (heap (fst (addClient rt this cid ws (Some (JStr ''controller'')) st)) this) = Some ws
   \<and> fst (snd (addClient rt this cid ws (Some (JStr ''controller'')) st))
       = (if isOpen st ws
          then [Send ws (RoomInfo (code (heap st this)) cid (Some (JStr ''controller''))
                           (length (clients (heap st this))) True)]
          else [])
   \<and> (w \<noteq> ws \<longrightarrow>
        conns (fst (addClient rt this cid ws (Some (JStr ''controller'')) st)) w = conns st w)"
  by (simp add: addClient_def Let_def sendToClient_def isOpen_def)

lemma addClient_client:
  "map_of (clients (heap (fst (addClient rt this cid ws (Some (JStr ''client'')) st)) this)) cid
     = Some ws
   \<and> \<not> list_ex rejection (fst (snd (addClient rt this cid ws (Some (JStr ''client'')) st)))"
  by (simp add: addClient_def Let_def sendToClient_def isOpen_def update_conv'
           split: option.splits)

text \<open>
  C4 (as amended). A \<^verbatim>\<open>hello\<close> whose role is \<^verbatim>\<open>controller\<close> or \<^verbatim>\<open>client\<close> and whose code is
  a non-empty string naming a registered room is accepted (the session becomes a member of
  that room and gets neither an \<^verbatim>\<open>error\<close> nor a close) unless the role is \<^verbatim>\<open>client\<close> and
  the room already holds the maximum of clients; in that case it is sent \<^verbatim>\<open>error\<close>
  ("Room is full") and then closed. A \<^verbatim>\<open>hello\<close> with a role and a code whose code names no
  room is sent \<^verbatim>\<open>error\<close> ("Invalid room code") and then closed. A \<^verbatim>\<open>hello\<close> whose role or
  code is missing (or falsy) is closed with the reason "Invalid authentication". No
  rejected \<^verbatim>\<open>hello\<close> changes any room.
\<close>

theorem hello_outcomes:
  assumes "get message ''type'' = Some (JStr ''hello'')"
  shows "(\<forall>this. get message ''role'' \<in> {Some (JStr ''controller''), Some (JStr ''client'')}
            \<and> truthy (get message ''code'')
            \<and> roomsGet st (get message ''code'') = Some this
            \<and> \<not> (get message ''role'' = Some (JStr ''client'')
                   \<and> MAX_CLIENTS_PER_ROOM \<le> length (clients (heap st this))) \<longrightarrow>
            \<not> list_ex rejection (snd (onMessage rt ws (Some message) st))
            \<and> member (heap (fst (onMessage rt ws (Some message) st)) this) ws)
       \<and> (\<forall>this. truthy (get message ''code'')
            \<and> roomsGet st (get message ''code'') = Some this
            \<and> get message ''role'' = Some (JStr ''client'')
            \<and> MAX_CLIENTS_PER_ROOM \<le> length (clients (heap st this)) \<longrightarrow>
            snd (onMessage rt ws (Some message) st)
              = [Send ws (Error ''Room is full''), Close ws (Some (1000, ''Room is full''))]
            \<and> heap (fst (onMessage rt ws (Some message) st)) = heap st)
       \<and> (truthy (get message ''role'') \<and> truthy (get message ''code'')
            \<and> roomsGet st (get message ''code'') = None \<longrightarrow>
            snd (onMessage rt ws (Some message) st)
              = [Send ws (Error ''Invalid room code''),
                 Close ws (Some (1000, ''Invalid room code''))]
            \<and> heap (fst (onMessage rt ws (Some message) st)) = heap st)
       \<and> (\<not> truthy (get message ''role'') \<or> \<not> truthy (get message ''code'') \<longrightarrow>
            Close ws (Some (1000, ''Invalid authentication''))
              \<in> set (snd (onMessage rt ws (Some message) st))
            \<and> heap (fst (onMessage rt ws (Some message) st)) = heap st)"
proof -
  note h = onMessage_hello [OF assms]
  have accepted: "\<not> list_ex rejection (snd (hello rt ws message st))
            \<and> member (heap (fst (hello rt ws message st)) this) ws"
    if a: "get message ''role'' \<in> {Some (JStr ''controller''), Some (JStr ''client'')}"
      "truthy (get message ''code'')" "roomsGet st (get message ''code'') = Some this"
      "\<not> (get message ''role'' = Some (JStr ''client'')
                   \<and> MAX_CLIENTS_PER_ROOM \<le> length (clients (heap st this)))"
    for this
  proof -
    from a(1) consider "get message ''role'' = Some (JStr ''controller'')"
      | "get message ''role'' = Some (JStr ''client'')" by auto
    then show ?thesis
    proof cases
      case 1
      have "hello rt ws message st =
           (fst (addClient rt this (clientId (conns st ws)) ws (Some (JStr ''controller''))
                  (st\<lparr>conns := (conns st)(ws := (conns st ws)
                         \<lparr>authTimeout := None, room := Some this\<rparr>)\<rparr>)),
            fst (snd (addClient rt this (clientId (conns st ws)) ws (Some (JStr ''controller''))
                  (st\<lparr>conns := (conns st)(ws := (conns st ws)
                         \<lparr>authTimeout := None, room := Some this\<rparr>)\<rparr>))))"
        using 1 a by (intro hello_accepts) simp_all
      then show ?thesis
        using addClient_controller
        by (simp add: member_def)
    next
      case 2
      have "hello rt ws message st =
           (fst (addClient rt this (clientId (conns st ws)) ws (Some (JStr ''client''))
                  (st\<lparr>conns := (conns st)(ws := (conns st ws)
                         \<lparr>authTimeout := None, room := Some this\<rparr>)\<rparr>)),
            fst (snd (addClient rt this (clientId (conns st ws)) ws (Some (JStr ''client''))
                  (st\<lparr>conns := (conns st)(ws := (conns st ws)
                         \<lparr>authTimeout := None, room := Some this\<rparr>)\<rparr>))))"
        using 2 a by (intro hello_accepts) simp_all
      then show ?thesis
        using addClient_client map_of_member
        by (fastforce simp: member_def)
    qed
  qed
  show ?thesis unfolding h using accepted hello_rejects [of message rt ws st] by auto
qed

text \<open>A client \<^verbatim>\<open>hello\<close> with the code of the room just created is accepted.\<close>

theorem hello_outcomes_witness:
  "get (helloMessage ''client'' ''A1B2C3'') ''type'' = Some (JStr ''hello'')
   \<and> get (helloMessage ''client'' ''A1B2C3'') ''role''
        \<in> {Some (JStr ''controller''), Some (JStr ''client'')}
   \<and> truthy (get (helloMessage ''client'' ''A1B2C3'') ''code'')
   \<and> roomsGet (fst (run sampleRuntime lobby init)) (get (helloMessage ''client'' ''A1B2C3'') ''code'')
        = Some 0
   \<and> length (clients (heap (fst (run sampleRuntime lobby init)) 0)) < MAX_CLIENTS_PER_ROOM
   \<and> \<not> list_ex rejection (snd (onMessage sampleRuntime 0
            (Some (helloMessage ''client'' ''A1B2C3'')) (fst (run sampleRuntime lobby init))))
   \<and> member (heap (fst (onMessage sampleRuntime 0
            (Some (helloMessage ''client'' ''A1B2C3'')) (fst (run sampleRuntime lobby init)))) 0) 0"
  using hello_outcomes [of "helloMessage ''client'' ''A1B2C3''" "fst (run sampleRuntime lobby init)"
      sampleRuntime 0]
  by (simp add: handlers member_def sampleRuntime_def lobby_def helloMessage_def)

text \<open>
  C4 as stated fails twice over: a \<^verbatim>\<open>hello\<close> without a role is closed and no \<^verbatim>\<open>error\<close>
  message is sent first; and a \<^verbatim>\<open>hello\<close> with role \<^verbatim>\<open>client\<close> and the code of an existing
  room is turned away when that room is full.
\<close>

theorem hello_rejections_counterexample:
  "snd (step sampleRuntime
          (Message 0 (Some (JObj [(''type'', JStr ''hello''), (''code'', JStr ''A1B2C3'')])))
          (fst (run sampleRuntime lobby init)))
     = [Close 0 (Some (1000, ''Invalid authentication''))]
   \<and> get (helloMessage ''client'' ''A1B2C3'') ''role''
        \<in> {Some (JStr ''controller''), Some (JStr ''client'')}
   \<and> roomsGet fullRoom (get (helloMessage ''client'' ''A1B2C3'') ''code'') = Some 0
   \<and> snd (step sampleRuntime (Message 50 (Some (helloMessage ''client'' ''A1B2C3''))) fullRoom)
       = [Send 50 (Error ''Room is full''), Close 50 (Some (1000, ''Room is full''))]"
  by (simp add: handlers sampleRuntime_def lobby_def helloMessage_def fullRoom_def)

section \<open>The client cap\<close>

lemma memberId_fresh: "generateClientId [255, 255, 255, 255, 255, 255, 255, 255] \<noteq> memberId i"
  by (simp add: memberId_def generateClientId_def hexByte_def)

text \<open>
  C3 fails on the code. In a room with fifty clients a \<^verbatim>\<open>hello\<close> with role \<^verbatim>\<open>client\<close> is
  answered with \<^verbatim>\<open>error\<close> "Room is full" and a close, as the claim says; but a \<^verbatim>\<open>hello\<close>
  with the role \<^verbatim>\<open>viewer\<close> passes the capacity check, which looks at role \<^verbatim>\<open>client\<close> only,
  and \<^verbatim>\<open>addClient\<close> files every role other than \<^verbatim>\<open>controller\<close> under the clients: the
  room then holds fifty-one.
\<close>

theorem capacity_bypass:
  "length (clients (heap fullRoom 0)) = 50
   \<and> snd (step sampleRuntime (Message 50 (Some (helloMessage ''client'' ''A1B2C3''))) fullRoom)
       = [Send 50 (Error ''Room is full''), Close 50 (Some (1000, ''Room is full''))]
   \<and> length (clients (heap (fst (step sampleRuntime
                (Message 50 (Some (helloMessage ''viewer'' ''A1B2C3''))) fullRoom)) 0)) = 51"
proof -
  have fresh: "generateClientId [255, 255, 255, 255, 255, 255, 255, 255]
                 \<notin> fst ` set (map (\<lambda>i. (memberId i, i)) [0..<50])"
    using memberId_fresh by (auto simp: image_iff)
  have "length (AList.update (generateClientId [255, 255, 255, 255, 255, 255, 255, 255]) 50
                  (map (\<lambda>i. (memberId i, i)) [0..<50])) = 51"
    using length_update_new [OF fresh] by simp
  then show ?thesis
    by (simp add: fullRoom_def helloMessage_def live_def onMessage_def hello_def addClient_def
          wsClose_def newRoom_def toTemplate_def MAX_CLIENTS_PER_ROOM_def Let_def)
qed

section \<open>The controller slot\<close>

text \<open>
  C9. In a room with a controller attached, a \<^verbatim>\<open>hello\<close> with role \<^verbatim>\<open>controller\<close> and the
  room's code from another socket puts the new socket in the controller slot. The only
  effect is the \<^verbatim>\<open>room_info\<close> acknowledgement to the new socket (if it is open): nothing
  is sent to the old controller and it is not closed; its connection is as it was.
\<close>

theorem second_controller_replaces:
  assumes "get message ''type'' = Some (JStr ''hello'')"
      and "get message ''role'' = Some (JStr ''controller'')"
      and "get message ''code'' = Some (JStr c)" and "c \<noteq> []"
      and "rooms st c = Some this"
      and "controller (heap st this) = Some old" and "old \<noteq> ws"
  shows "controller (heap (fst (onMessage rt ws (Some message) st)) this) = Some ws
       \<and> snd (onMessage rt ws (Some message) st)
           = (if isOpen st ws
              then [Send ws (RoomInfo (code (heap st this)) (clientId (conns st ws))
                               (Some (JStr ''controller'')) (length (clients (heap st this)))
                               True)]
              else [])
       \<and> conns (fst (onMessage rt ws (Some message) st)) old = conns st old"
proof -
  let ?st1 = "st\<lparr>conns := (conns st)(ws := (conns st ws)\<lparr>authTimeout := None, room := Some this\<rparr>)\<rparr>"
  have "hello rt ws message st
          = (fst (addClient rt this (clientId (conns st ws)) ws (Some (JStr ''controller'')) ?st1),
             fst (snd (addClient rt this (clientId (conns st ws)) ws (Some (JStr ''controller''))
                         ?st1)))"
    using assms by (intro hello_accepts) simp_all
  then have "onMessage rt ws (Some message) st
          = (fst (addClient rt this (clientId (conns st ws)) ws (Some (JStr ''controller'')) ?st1),
             fst (snd (addClient rt this (clientId (conns st ws)) ws (Some (JStr ''controller''))
                         ?st1)))"
    using onMessage_hello [OF assms(1)] by simp
  then show ?thesis
    using addClient_controller [of rt this "clientId (conns st ws)" ws ?st1 old] assms(7)
    by (simp add: isOpen_def)
qed

text \<open>
  Socket 2 says hello as controller in the paired room: it takes the slot of socket 0,
  which stays open.
\<close>

theorem second_controller_replaces_witness:
  "get (helloMessage ''controller'' ''A1B2C3'') ''type'' = Some (JStr ''hello'')
   \<and> get (helloMessage ''controller'' ''A1B2C3'') ''role'' = Some (JStr ''controller'')
   \<and> get (helloMessage ''controller'' ''A1B2C3'') ''code'' = Some (JStr ''A1B2C3'')
   \<and> ''A1B2C3'' \<noteq> []
   \<and> rooms (fst (run sampleRuntime (pairedRoom @ [thirdSocket]) init)) ''A1B2C3'' = Some 0
   \<and> controller (heap (fst (run sampleRuntime (pairedRoom @ [thirdSocket]) init)) 0) = Some 0
   \<and> (0::nat) \<noteq> 2
   \<and> controller (heap (fst (onMessage sampleRuntime 2
          (Some (helloMessage ''controller'' ''A1B2C3''))
          (fst (run sampleRuntime (pairedRoom @ [thirdSocket]) init)))) 0) = Some 2
   \<and> snd (onMessage sampleRuntime 2 (Some (helloMessage ''controller'' ''A1B2C3''))
          (fst (run sampleRuntime (pairedRoom @ [thirdSocket]) init)))
       = [Send 2 (RoomInfo ''A1B2C3'' ''0707070707070707'' (Some (JStr ''controller'')) 1 True)]
   \<and> readyOpen (conns (fst (onMessage sampleRuntime 2
          (Some (helloMessage ''controller'' ''A1B2C3''))
          (fst (run sampleRuntime (pairedRoom @ [thirdSocket]) init)))) 0)"
  using second_controller_replaces [of "helloMessage ''controller'' ''A1B2C3''" "''A1B2C3''"
      "fst (run sampleRuntime (pairedRoom @ [thirdSocket]) init)" 0 0 2 sampleRuntime]
  by (simp add: handlers sampleRuntime_def pairedRoom_def thirdSocket_def helloMessage_def)

text \<open>
  C10. \<^verbatim>\<open>removeClient\<close> called with role \<^verbatim>\<open>controller\<close> empties the controller slot whatever
  it holds; so when a socket whose \<^verbatim>\<open>ws.role\<close> is \<^verbatim>\<open>controller\<close> closes, the slot of its room
  is empty afterwards, also when another socket had taken the slot.
\<close>

theorem controller_close_clears_slot:
  "controller (fst (removeClient opn t r cid (Some Controller))) = None
   \<and> (room (conns st ws) = Some this \<and> ws_role (conns st ws) = Some Controller \<longrightarrow>
        controller (heap (fst (onClose ws st)) this) = None)"
  by (simp add: removeClient_def onClose_def Let_def split: prod.splits)

text \<open>
  Socket 2 has replaced socket 0 as controller of the paired room; socket 0 closes, and the
  slot is empty although socket 2 is live with role \<^verbatim>\<open>controller\<close>.
\<close>

theorem controller_close_clears_slot_witness:
  "room (conns (fst (run sampleRuntime
           (pairedRoom @ [thirdSocket, Message 2 (Some (helloMessage ''controller'' ''A1B2C3''))])
           init)) 0) = Some 0
   \<and> ws_role (conns (fst (run sampleRuntime
           (pairedRoom @ [thirdSocket, Message 2 (Some (helloMessage ''controller'' ''A1B2C3''))])
           init)) 0) = Some Controller
   \<and> controller (heap (fst (run sampleRuntime
           (pairedRoom @ [thirdSocket, Message 2 (Some (helloMessage ''controller'' ''A1B2C3''))])
           init)) 0) = Some 2
   \<and> controller (heap (fst (onClose 0 (fst (run sampleRuntime
           (pairedRoom @ [thirdSocket, Message 2 (Some (helloMessage ''controller'' ''A1B2C3''))])
           init)))) 0) = None
   \<and> live (fst (onClose 0 (fst (run sampleRuntime
           (pairedRoom @ [thirdSocket, Message 2 (Some (helloMessage ''controller'' ''A1B2C3''))])
           init)))) 2
   \<and> ws_role (conns (fst (onClose 0 (fst (run sampleRuntime
           (pairedRoom @ [thirdSocket, Message 2 (Some (helloMessage ''controller'' ''A1B2C3''))])
           init)))) 2) = Some Controller"
  using controller_close_clears_slot [of "\<lambda>_. True" 0 "newRoom ''A1B2C3'' 0" "[]"
      "fst (run sampleRuntime
           (pairedRoom @ [thirdSocket, Message 2 (Some (helloMessage ''controller'' ''A1B2C3''))])
           init)" 0 0]
  by (simp add: handlers sampleRuntime_def pairedRoom_def thirdSocket_def helloMessage_def)

section \<open>The registry\<close>

text \<open>
  C2 fails on the code. \<^verbatim>\<open>POST /api/rooms\<close> writes the new room under the generated code
  without looking whether the code is taken. Room \<^verbatim>\<open>A1B2C3\<close> is live, with a controller and
  a client; the random bytes come out as A1 B2 C3 again; the request succeeds, the code now
  names a new empty room, and the live room has lost its registry entry.
\<close>

theorem createRoom_collision:
  "rooms (fst (run sampleRuntime pairedRoom init)) ''A1B2C3'' = Some 0
   \<and> controller (heap (fst (run sampleRuntime pairedRoom init)) 0) = Some 0
   \<and> clients (heap (fst (run sampleRuntime pairedRoom init)) 0) = [(''0902030405060708'', 1)]
   \<and> snd (step sampleRuntime (CreateRoom (0xA1, 0xB2, 0xC3) True)
             (fst (run sampleRuntime pairedRoom init)))
       = [InsertSession ''A1B2C3'', Reply 200 True (Some ''A1B2C3'')]
   \<and> rooms (fst (step sampleRuntime (CreateRoom (0xA1, 0xB2, 0xC3) True)
                (fst (run sampleRuntime pairedRoom init)))) ''A1B2C3'' = Some 1
   \<and> controller (heap (fst (step sampleRuntime (CreateRoom (0xA1, 0xB2, 0xC3) True)
                (fst (run sampleRuntime pairedRoom init)))) 1) = None
   \<and> clients (heap (fst (step sampleRuntime (CreateRoom (0xA1, 0xB2, 0xC3) True)
                (fst (run sampleRuntime pairedRoom init)))) 1) = []"
  by (simp add: handlers sampleRuntime_def pairedRoom_def helloMessage_def)











section \<open>The authentication timeout\<close>












































end
